theory Spec2Isabelle
  imports Main "HOL-Library.Word"
begin

unbundle bit_operations_syntax

section \<open>The DirectSound audio sink: data model\<close>

text \<open>
  The development embeds \<^verbatim>\<open>sys/directsound/gstdirectsoundsink.c\<close>. The C types are
  32-bit unsigned machine integers (\<^verbatim>\<open>DWORD\<close>, \<^verbatim>\<open>guint\<close>), so arithmetic wraps
  modulo \<open>2 ^ 32\<close>; \<^verbatim>\<open>HRESULT\<close> is a 32-bit value read as two's complement;
  \<^verbatim>\<open>WORD\<close> has 16 bits. A pointer is \<open>None\<close> for \<^verbatim>\<open>NULL\<close>; a pointer into the
  locked hardware buffer is the byte index it points at.
\<close>

type_synonym DWORD = "32 word"
type_synonym guint = "32 word"
type_synonym gint = "32 word"
type_synonym glong = "32 word"
type_synonym WORD = "16 word"
type_synonym HRESULT = "32 word"
type_synonym byte = "8 word"
type_synonym pointer = "nat option"

text \<open>
  Modelled from the spec: the result codes and flags of the device interface. The
  specification has calls that answer \<open>ok | error\<close>, a status with the flags
  \<open>playing\<close> and \<open>lost\<close>, and \<open>play (loop = true)\<close>; the code tests them with the
  macros and constants of the platform headers (\<^verbatim>\<open>winerror.h\<close>, \<^verbatim>\<open>dsound.h\<close>), which
  are not part of the repository. \<^verbatim>\<open>SUCCEEDED\<close> and \<^verbatim>\<open>FAILED\<close> test the sign of the
  result code, \<^verbatim>\<open>S_OK\<close> is the one code \<^verbatim>\<open>delay\<close> compares with, the flags are single
  bits.
\<close>

definition SUCCEEDED :: "HRESULT \<Rightarrow> bool" where
  "SUCCEEDED hr \<longleftrightarrow> 0 \<le> sint hr"

definition FAILED :: "HRESULT \<Rightarrow> bool" where
  "FAILED hr \<longleftrightarrow> sint hr < 0"

definition S_OK :: HRESULT where
  "S_OK = 0"

definition DSBSTATUS_PLAYING :: DWORD where
  "DSBSTATUS_PLAYING = 1"

definition DSBSTATUS_BUFFERLOST :: DWORD where
  "DSBSTATUS_BUFFERLOST = 2"

definition DSBPLAY_LOOPING :: DWORD where
  "DSBPLAY_LOOPING = 1"

definition DSBSIZE_MIN :: guint where
  "DSBSIZE_MIN = 4"

definition DSBCAPS_CTRLVOLUME :: DWORD where
  "DSBCAPS_CTRLVOLUME = 128"

definition DSBCAPS_GLOBALFOCUS :: DWORD where
  "DSBCAPS_GLOBALFOCUS = 32768"

definition DSBCAPS_GETCURRENTPOSITION2 :: DWORD where
  "DSBCAPS_GETCURRENTPOSITION2 = 65536"

definition WAVE_FORMAT_PCM :: WORD where
  "WAVE_FORMAT_PCM = 1"

text \<open>
  Modelled from the spec: the sink object, the \<open>Session\<close> of the specification's data
  model (engine handle, hardware buffer handle, capacity, write offset, bytes per sample,
  attenuation, reset flag). Its declaration lives in \<^verbatim>\<open>gstdirectsoundsink.h\<close>, which
  is not among the sources; the record has the fields that \<^verbatim>\<open>gstdirectsoundsink.c\<close>
  reads and writes, under the names the code uses and with the types its uses force
  (\<^verbatim>\<open>guint\<close> counters compared with \<^verbatim>\<open>DWORD\<close> values, a \<^verbatim>\<open>glong\<close> attenuation, a
  \<^verbatim>\<open>gboolean\<close> flag). The mutex \<^verbatim>\<open>dsound_lock\<close> is left out: every operation is
  modelled as running alone.
\<close>

record GstDirectSoundSink =
  pDS :: pointer
  pDSBSecondary :: pointer
  buffer_size :: guint
  current_circular_offset :: guint
  bytes_per_sample :: guint
  attenuation :: glong
  first_buffer_after_reset :: bool

text \<open>
  The platform's \<^verbatim>\<open>WAVEFORMATEX\<close> and \<^verbatim>\<open>DSBUFFERDESC\<close>, as far as \<^verbatim>\<open>prepare\<close> fills
  them: \<^verbatim>\<open>WORD\<close> fields have 16 bits, \<^verbatim>\<open>DWORD\<close> fields 32.
\<close>

record WAVEFORMATEX =
  wFormatTag :: WORD
  nChannels :: WORD
  nSamplesPerSec :: DWORD
  nAvgBytesPerSec :: DWORD
  nBlockAlign :: WORD
  wBitsPerSample :: WORD

record DSBUFFERDESC =
  dwFlags :: DWORD
  dwBufferBytes :: DWORD
  lpwfxFormat :: WAVEFORMATEX

text \<open>The three fields of \<^verbatim>\<open>GstRingBufferSpec\<close> that \<^verbatim>\<open>prepare\<close> reads, all \<^verbatim>\<open>gint\<close>.\<close>

record GstRingBufferSpec =
  spec_channels :: gint
  spec_rate :: gint
  spec_bytes_per_sample :: gint

text \<open>
  The calls the sink makes on the DirectSound buffer, in the order it makes them. The
  device is outside the program: what it answers is an input of each operation, what it
  is asked is recorded as a list of these calls.
\<close>

datatype dsound_call =
    GetStatus
  | GetCurrentPosition
  | Sleep nat
  | Restore
  | Lock DWORD DWORD
  | Unlock pointer DWORD pointer DWORD
  | Play DWORD
  | Stop
  | SetCurrentPosition DWORD
  | SetVolume glong
  | CreateSoundBuffer DSBUFFERDESC

text \<open>
  What stops an operation before it returns: a call through a \<^verbatim>\<open>NULL\<close> buffer
  pointer (\<^verbatim>\<open>pDSBSecondary\<close>) or through a \<^verbatim>\<open>NULL\<close> engine pointer (\<^verbatim>\<open>pDS\<close>), a
  \<^verbatim>\<open>memcpy\<close>/\<^verbatim>\<open>memset\<close> outside the memory it was given, a division by zero, or
  (for the polling loop of \<^verbatim>\<open>write\<close>) the end of the finite list of device answers
  while the loop is still waiting.
\<close>

datatype abort = NullBuffer | NullDevice | MemoryFault | DivisionByZero | StillWaiting

text \<open>The answer of \<^verbatim>\<open>IDirectSoundBuffer_Lock\<close>: result code and the four out-parameters.\<close>

record lock_reply =
  lock_hr :: HRESULT
  ptr1 :: pointer
  size1 :: DWORD
  ptr2 :: pointer
  size2 :: DWORD

text \<open>
  One round of the polling loop: after \<^verbatim>\<open>Sleep (100)\<close> the play cursor is read again
  (its result code is overwritten unread), then the status with its result code.
\<close>

record poll_reply =
  poll_cursor :: DWORD
  poll_status_hr :: HRESULT
  poll_status :: DWORD

text \<open>
  What the device answers during one \<^verbatim>\<open>write\<close>: the status word (the result code of
  the first \<^verbatim>\<open>GetStatus\<close> is overwritten unread), the result code and cursor of
  \<^verbatim>\<open>GetCurrentPosition\<close>, the rounds of the polling loop and the answer to
  \<^verbatim>\<open>Lock\<close>. The result codes of \<^verbatim>\<open>Restore\<close>, \<^verbatim>\<open>Unlock\<close> and \<^verbatim>\<open>Play\<close> are
  never read by the code.
\<close>

record write_device =
  status0 :: DWORD
  position_hr0 :: HRESULT
  cursor0 :: DWORD
  polls :: "poll_reply list"
  lock_answer :: lock_reply

record write_result =
  w_return :: guint
  w_sink :: GstDirectSoundSink
  w_memory :: "byte list"
  w_copied :: nat
  w_calls :: "dsound_call list"

record delay_device =
  d_status :: DWORD
  d_position_hr :: HRESULT
  d_cursor :: DWORD

record reset_result =
  r_sink :: GstDirectSoundSink
  r_memory :: "byte list"
  r_calls :: "dsound_call list"

record prepare_device =
  create_hr :: HRESULT
  created_buffer :: pointer

record prepare_result =
  p_return :: bool
  p_sink :: GstDirectSoundSink
  p_calls :: "dsound_call list"

section \<open>Memory\<close>

text \<open>
  \<^verbatim>\<open>memcpy (dst, src, n)\<close> into the hardware buffer \<open>mem\<close>: \<open>dst\<close> is a byte index
  into \<open>mem\<close>, \<open>src\<close> the bytes available from the source pointer on. Writing outside
  \<open>mem\<close>, reading past the end of \<open>src\<close> and a \<^verbatim>\<open>NULL\<close> destination are faults.
\<close>

definition memcpy :: "byte list \<Rightarrow> pointer \<Rightarrow> byte list \<Rightarrow> nat \<Rightarrow> byte list option" where
  "memcpy mem dst src n =
     (case dst of
        None \<Rightarrow> None
      | Some a \<Rightarrow>
          if a + n \<le> length mem \<and> n \<le> length src
          then Some (take a mem @ take n src @ drop (a + n) mem)
          else None)"

definition memset :: "byte list \<Rightarrow> pointer \<Rightarrow> byte \<Rightarrow> nat \<Rightarrow> byte list option" where
  "memset mem dst c n =
     (case dst of
        None \<Rightarrow> None
      | Some a \<Rightarrow>
          if a + n \<le> length mem
          then Some (take a mem @ replicate n c @ drop (a + n) mem)
          else None)"

section \<open>Operations\<close>

subsection \<open>\<^verbatim>\<open>gst_directsound_sink_init\<close>\<close>

definition gst_directsound_sink_init :: GstDirectSoundSink where
  "gst_directsound_sink_init =
     \<lparr>pDS = None, pDSBSecondary = None, buffer_size = DSBSIZE_MIN,
      current_circular_offset = 0, bytes_per_sample = 0, attenuation = 0,
      first_buffer_after_reset = False\<rparr>"

subsection \<open>\<^verbatim>\<open>gst_directsound_sink_prepare\<close>\<close>

text \<open>
  \<^verbatim>\<open>wfx.nBlockAlign\<close> is a \<^verbatim>\<open>WORD\<close>: the assignment keeps the low 16 bits.
  \<^verbatim>\<open>nSamplesPerSec * nBlockAlign\<close> is a \<^verbatim>\<open>DWORD\<close> product and wraps.
  \<^verbatim>\<open>(spec->bytes_per_sample * 8) / wfx.nChannels\<close> is a signed \<^verbatim>\<open>int\<close> division,
  which traps when \<^verbatim>\<open>nChannels\<close> is 0. The buffer is created by a call through
  \<^verbatim>\<open>pDS\<close>, which must not be \<^verbatim>\<open>NULL\<close>; the device leaves its answer in
  \<^verbatim>\<open>pDSBSecondary\<close>, and the volume, when there is an attenuation to apply, is set by
  a call through that pointer.
\<close>

definition fill_wfx :: "GstRingBufferSpec \<Rightarrow> WAVEFORMATEX" where
  "fill_wfx spec =
     (let channels = (ucast (spec_channels spec) :: WORD);
          rate = spec_rate spec;
          align = (ucast (spec_bytes_per_sample spec) :: WORD)
      in \<lparr>wFormatTag = WAVE_FORMAT_PCM,
          nChannels = channels,
          nSamplesPerSec = rate,
          nAvgBytesPerSec = rate * ucast align,
          nBlockAlign = align,
          wBitsPerSample =
            word_of_int (sgn (sint (spec_bytes_per_sample spec * 8)) *
              (\<bar>sint (spec_bytes_per_sample spec * 8)\<bar> div uint channels))\<rparr>)"

definition gst_directsound_sink_prepare ::
  "GstDirectSoundSink \<Rightarrow> GstRingBufferSpec \<Rightarrow> prepare_device \<Rightarrow> abort + prepare_result" where
  "gst_directsound_sink_prepare s spec dev =
     (let s1 = s\<lparr>bytes_per_sample := spec_bytes_per_sample spec\<rparr> in
      if (ucast (spec_channels spec) :: WORD) = 0 then Inl DivisionByZero
      else
        let wfx = fill_wfx spec;
            s2 = s1\<lparr>buffer_size := nAvgBytesPerSec wfx div 2\<rparr>;
            desc = \<lparr>dwFlags = DSBCAPS_GETCURRENTPOSITION2 OR DSBCAPS_GLOBALFOCUS OR DSBCAPS_CTRLVOLUME,
                     dwBufferBytes = buffer_size s2,
                     lpwfxFormat = wfx\<rparr>;
            s3 = s2\<lparr>pDSBSecondary := created_buffer dev\<rparr>
        in (case pDS s2 of
              None \<Rightarrow> Inl NullDevice
            | Some _ \<Rightarrow>
                if FAILED (create_hr dev)
                then Inr \<lparr>p_return = False, p_sink = s3, p_calls = [CreateSoundBuffer desc]\<rparr>
                else if attenuation s3 \<noteq> 0
                then (case pDSBSecondary s3 of
                        None \<Rightarrow> Inl NullBuffer
                      | Some _ \<Rightarrow>
                          Inr \<lparr>p_return = True, p_sink = s3,
                               p_calls = [CreateSoundBuffer desc, SetVolume (attenuation s3)]\<rparr>)
                else Inr \<lparr>p_return = True, p_sink = s3,
                          p_calls = [CreateSoundBuffer desc]\<rparr>))"

subsection \<open>\<^verbatim>\<open>gst_directsound_sink_write\<close>\<close>

definition playing :: "DWORD \<Rightarrow> bool" where
  "playing dwStatus \<longleftrightarrow> dwStatus AND DSBSTATUS_PLAYING \<noteq> 0"

definition bufferlost :: "DWORD \<Rightarrow> bool" where
  "bufferlost dwStatus \<longleftrightarrow> dwStatus AND DSBSTATUS_BUFFERLOST \<noteq> 0"

text \<open>The label \<^verbatim>\<open>calculate_freesize\<close>: the free size of the circular buffer.\<close>

definition calculate_freesize :: "GstDirectSoundSink \<Rightarrow> DWORD \<Rightarrow> DWORD" where
  "calculate_freesize s dwCurrentPlayCursor =
     (if dwCurrentPlayCursor < current_circular_offset s
      then buffer_size s - (current_circular_offset s - dwCurrentPlayCursor)
      else dwCurrentPlayCursor - current_circular_offset s)"

text \<open>
  The \<^verbatim>\<open>goto\<close> loop. Each round that finds \<^verbatim>\<open>length >= dwFreeBufferSize\<close> sleeps,
  reads cursor and status again and either jumps back (status read and playing) or gives
  the write up. The loop leaves with the status word it read last.
\<close>

datatype wait_result =
    Proceed DWORD "dsound_call list"
  | Abandon "dsound_call list"
  | Exhausted

fun wait_free ::
  "GstDirectSoundSink \<Rightarrow> guint \<Rightarrow> DWORD \<Rightarrow> DWORD \<Rightarrow> poll_reply list \<Rightarrow> dsound_call list
     \<Rightarrow> wait_result" where
  "wait_free s len cur st [] calls =
     (if len \<ge> calculate_freesize s cur then Exhausted else Proceed st calls)"
| "wait_free s len cur st (p # ps) calls =
     (if len \<ge> calculate_freesize s cur then
        (if SUCCEEDED (poll_status_hr p) \<and> playing (poll_status p)
         then wait_free s len (poll_cursor p) (poll_status p) ps
                (calls @ [Sleep 100, GetCurrentPosition, GetStatus])
         else Abandon (calls @ [Sleep 100, GetCurrentPosition, GetStatus]))
      else Proceed st calls)"

text \<open>
  The end of \<^verbatim>\<open>write\<close>: play unless already playing or first buffer after a reset,
  clear the flag, return \<^verbatim>\<open>length\<close>.
\<close>

definition finish_write ::
  "GstDirectSoundSink \<Rightarrow> DWORD \<Rightarrow> guint \<Rightarrow> byte list \<Rightarrow> nat \<Rightarrow> dsound_call list \<Rightarrow> write_result" where
  "finish_write s dwStatus len mem copied calls =
     \<lparr>w_return = len,
      w_sink = s\<lparr>first_buffer_after_reset := False\<rparr>,
      w_memory = mem,
      w_copied = copied,
      w_calls = calls @
        (if \<not> playing dwStatus \<and> first_buffer_after_reset s = False
         then [Play DSBPLAY_LOOPING] else [])\<rparr>"

text \<open>From the buffer-lost test to the end: restore, lock, copy, advance, unlock.\<close>

definition lock_and_copy ::
  "GstDirectSoundSink \<Rightarrow> DWORD \<Rightarrow> lock_reply \<Rightarrow> byte list \<Rightarrow> byte list \<Rightarrow> guint
     \<Rightarrow> dsound_call list \<Rightarrow> abort + write_result" where
  "lock_and_copy s dwStatus lr mem data len calls =
     (let s1 = (if bufferlost dwStatus then s\<lparr>current_circular_offset := 0\<rparr> else s);
          calls1 = calls @ (if bufferlost dwStatus then [Restore] else [])
                     @ [Lock (current_circular_offset s1) len]
      in if SUCCEEDED (lock_hr lr) then
           (case memcpy mem (ptr1 lr) data (unat (size1 lr)) of
              None \<Rightarrow> Inl MemoryFault
            | Some mem1 \<Rightarrow>
                (case (if ptr2 lr \<noteq> None
                       then memcpy mem1 (ptr2 lr) (drop (unat (size1 lr)) data) (unat (size2 lr))
                       else Some mem1) of
                   None \<Rightarrow> Inl MemoryFault
                 | Some mem2 \<Rightarrow>
                     if buffer_size s1 = 0 then Inl DivisionByZero
                     else
                       Inr (finish_write
                         (s1\<lparr>current_circular_offset :=
                               (current_circular_offset s1 + (size1 lr + size2 lr))
                                 mod buffer_size s1\<rparr>)
                         dwStatus len mem2
                         (unat (size1 lr) + (if ptr2 lr \<noteq> None then unat (size2 lr) else 0))
                         (calls1 @ [Unlock (ptr1 lr) (size1 lr) (ptr2 lr) (size2 lr)]))))
         else Inr (finish_write s1 dwStatus len mem 0 calls1))"

definition gst_directsound_sink_write ::
  "GstDirectSoundSink \<Rightarrow> write_device \<Rightarrow> byte list \<Rightarrow> byte list \<Rightarrow> guint
     \<Rightarrow> abort + write_result" where
  "gst_directsound_sink_write s dev mem data len =
     (case pDSBSecondary s of
        None \<Rightarrow> Inl NullBuffer
      | Some _ \<Rightarrow>
          (case (if SUCCEEDED (position_hr0 dev) \<and> playing (status0 dev)
                 then wait_free s len (cursor0 dev) (status0 dev) (polls dev)
                        [GetStatus, GetCurrentPosition]
                 else Proceed (status0 dev) [GetStatus, GetCurrentPosition]) of
             Exhausted \<Rightarrow> Inl StillWaiting
           | Abandon calls \<Rightarrow>
               Inr \<lparr>w_return = 0,
                    w_sink = s\<lparr>first_buffer_after_reset := False\<rparr>,
                    w_memory = mem, w_copied = 0, w_calls = calls\<rparr>
           | Proceed dwStatus calls \<Rightarrow>
               lock_and_copy s dwStatus (lock_answer dev) mem data len calls))"

subsection \<open>\<^verbatim>\<open>gst_directsound_sink_delay\<close>\<close>

definition bytes_in_queue :: "GstDirectSoundSink \<Rightarrow> DWORD \<Rightarrow> DWORD" where
  "bytes_in_queue s dwCurrentPlayCursor =
     (if dwCurrentPlayCursor < current_circular_offset s
      then current_circular_offset s - dwCurrentPlayCursor
      else current_circular_offset s + (buffer_size s - dwCurrentPlayCursor))"

definition gst_directsound_sink_delay ::
  "GstDirectSoundSink \<Rightarrow> delay_device \<Rightarrow> abort + guint" where
  "gst_directsound_sink_delay s dev =
     (case pDSBSecondary s of
        None \<Rightarrow> Inl NullBuffer
      | Some _ \<Rightarrow>
          if playing (d_status dev) then
            (if d_position_hr dev = S_OK then
               (if bytes_per_sample s = 0 then Inl DivisionByZero
                else Inr (bytes_in_queue s (d_cursor dev) div bytes_per_sample s))
             else Inr 0)
          else Inr 0)"

subsection \<open>\<^verbatim>\<open>gst_directsound_sink_reset\<close>\<close>

definition gst_directsound_sink_reset ::
  "GstDirectSoundSink \<Rightarrow> lock_reply \<Rightarrow> byte list \<Rightarrow> abort + reset_result" where
  "gst_directsound_sink_reset s lr mem =
     (case pDSBSecondary s of
        Some _ \<Rightarrow>
          (let s1 = s\<lparr>current_circular_offset := 0\<rparr>;
               calls = [Stop, SetCurrentPosition 0,
                        Lock (current_circular_offset s1) (buffer_size s1)]
           in if SUCCEEDED (lock_hr lr) then
                (case memset mem (ptr1 lr) 0 (unat (size1 lr)) of
                   None \<Rightarrow> Inl MemoryFault
                 | Some mem1 \<Rightarrow>
                     Inr \<lparr>r_sink = s1\<lparr>first_buffer_after_reset := True\<rparr>,
                          r_memory = mem1,
                          r_calls = calls @ [Unlock (ptr1 lr) (size1 lr) None 0]\<rparr>)
              else Inr \<lparr>r_sink = s1\<lparr>first_buffer_after_reset := True\<rparr>,
                        r_memory = mem, r_calls = calls\<rparr>)
      | None \<Rightarrow>
          Inr \<lparr>r_sink = s\<lparr>first_buffer_after_reset := True\<rparr>,
               r_memory = mem, r_calls = []\<rparr>)"

section \<open>Reading the results\<close>

text \<open>
  Two fields of \<open>write_result\<close> are observations rather than C state: \<open>w_calls\<close>
  lists the device calls in program order, \<open>w_copied\<close> adds up the lengths handed to
  \<^verbatim>\<open>memcpy\<close>. \<open>rounds k\<close> is what \<open>k\<close> turns of the polling loop add to the
  calls.
\<close>

definition rounds :: "nat \<Rightarrow> dsound_call list" where
  "rounds k = concat (replicate k [Sleep 100, GetCurrentPosition, GetStatus])"


definition spec_queued_bytes :: "nat \<Rightarrow> nat \<Rightarrow> nat \<Rightarrow> nat" where
  "spec_queued_bytes capacity write_offset cursor =
     (if cursor < write_offset then write_offset - cursor
      else write_offset + (capacity - cursor))"

text \<open>
  What the code relies on from a successful \<^verbatim>\<open>Lock\<close>: the regions handed out lie
  inside the hardware buffer and are no longer than the data offered. \<open>regions_fit\<close> is
  for the two regions of \<^verbatim>\<open>write\<close>, \<open>zero_fill_fits\<close> for the single region of
  \<^verbatim>\<open>reset\<close>.
\<close>

definition regions_fit :: "lock_reply \<Rightarrow> byte list \<Rightarrow> byte list \<Rightarrow> bool" where
  "regions_fit lr mem data \<longleftrightarrow>
     (case ptr1 lr of
        None \<Rightarrow> False
      | Some a \<Rightarrow>
          a + unat (size1 lr) \<le> length mem \<and> unat (size1 lr) \<le> length data \<and>
          (case ptr2 lr of
             None \<Rightarrow> True
           | Some b \<Rightarrow>
               b + unat (size2 lr) \<le> length mem \<and>
               unat (size1 lr) + unat (size2 lr) \<le> length data))"

definition zero_fill_fits :: "lock_reply \<Rightarrow> byte list \<Rightarrow> bool" where
  "zero_fill_fits lr mem \<longleftrightarrow>
     (if SUCCEEDED (lock_hr lr)
      then (case ptr1 lr of None \<Rightarrow> False | Some a \<Rightarrow> a + unat (size1 lr) \<le> length mem)
      else True)"

section \<open>A small session\<close>

text \<open>
  Concrete values for running the operations: a sink with a hardware buffer of eight
  bytes and two bytes per sample, the buffer's memory, four bytes of audio, and answers
  of the device.
\<close>

definition sample_sink :: "guint \<Rightarrow> bool \<Rightarrow> GstDirectSoundSink" where
  "sample_sink off flag =
     \<lparr>pDS = Some 1, pDSBSecondary = Some 2, buffer_size = 8,
      current_circular_offset = off, bytes_per_sample = 2, attenuation = 0,
      first_buffer_after_reset = flag\<rparr>"

text \<open>The sink after \<^verbatim>\<open>init\<close> and a successful \<^verbatim>\<open>open\<close>, which stores the engine
  pointer in \<^verbatim>\<open>pDS\<close> and touches nothing else; and a sink with offset 6 whose
  capacity has gone down from 8 to 4.\<close>

definition opened_sink :: GstDirectSoundSink where
  "opened_sink = gst_directsound_sink_init\<lparr>pDS := Some 1\<rparr>"

definition shrunk_sink :: GstDirectSoundSink where
  "shrunk_sink =
     \<lparr>pDS = Some 1, pDSBSecondary = Some 3, buffer_size = 4,
      current_circular_offset = 6, bytes_per_sample = 1, attenuation = 0,
      first_buffer_after_reset = False\<rparr>"

definition silence :: "byte list" where
  "silence = [0, 0, 0, 0, 0, 0, 0, 0]"

definition samples :: "byte list" where
  "samples = [1, 2, 3, 4]"

text \<open>A lock of four bytes at offset 0, one at offset 6 that wraps, one over the whole
  buffer, and one that fails with \<^verbatim>\<open>E_FAIL\<close>.\<close>

definition plain_lock :: lock_reply where
  "plain_lock = \<lparr>lock_hr = 0, ptr1 = Some 0, size1 = 4, ptr2 = None, size2 = 0\<rparr>"

definition wrapped_lock :: lock_reply where
  "wrapped_lock = \<lparr>lock_hr = 0, ptr1 = Some 6, size1 = 2, ptr2 = Some 0, size2 = 2\<rparr>"

definition whole_lock :: lock_reply where
  "whole_lock = \<lparr>lock_hr = 0, ptr1 = Some 0, size1 = 8, ptr2 = None, size2 = 0\<rparr>"

definition failed_lock :: lock_reply where
  "failed_lock = \<lparr>lock_hr = 2147500037, ptr1 = None, size1 = 0, ptr2 = None, size2 = 0\<rparr>"

text \<open>A device that is not in the polling business (status word \<open>st\<close>, no rounds), and
  one that reports playing with the cursor at \<open>cur\<close> and answers the rounds \<open>ps\<close>.\<close>

definition quiet_device :: "DWORD \<Rightarrow> lock_reply \<Rightarrow> write_device" where
  "quiet_device st lr =
     \<lparr>status0 = st, position_hr0 = 0, cursor0 = 0, polls = [], lock_answer = lr\<rparr>"

definition playing_device :: "DWORD \<Rightarrow> poll_reply list \<Rightarrow> lock_reply \<Rightarrow> write_device" where
  "playing_device cur ps lr =
     \<lparr>status0 = DSBSTATUS_PLAYING, position_hr0 = 0, cursor0 = cur, polls = ps,
      lock_answer = lr\<rparr>"

section \<open>Facts about the model\<close>

lemmas device_consts =
  SUCCEEDED_def FAILED_def S_OK_def playing_def bufferlost_def
  DSBSTATUS_PLAYING_def DSBSTATUS_BUFFERLOST_def DSBPLAY_LOOPING_def

lemmas sample_defs =
  sample_sink_def opened_sink_def shrunk_sink_def gst_directsound_sink_init_def DSBSIZE_MIN_def
  silence_def samples_def plain_lock_def wrapped_lock_def whole_lock_def
  failed_lock_def quiet_device_def playing_device_def

lemmas write_eval =
  gst_directsound_sink_write_def lock_and_copy_def finish_write_def calculate_freesize_def
  memcpy_def Let_def device_consts sample_defs

subsection \<open>The calls of the polling loop\<close>

lemma rounds_simps [simp]:
  "rounds 0 = []"
  "rounds (Suc k) = [Sleep 100, GetCurrentPosition, GetStatus] @ rounds k"
  by (simp_all add: rounds_def)

lemma in_rounds:
  "x \<in> set (rounds k) \<longleftrightarrow>
     0 < k \<and> (x = Sleep 100 \<or> x = GetCurrentPosition \<or> x = GetStatus)"
  by (induction k) auto


subsection \<open>Memory\<close>

lemma length_memset: "memset mem dst c n = Some mem' \<Longrightarrow> length mem' = length mem"
  by (auto simp: memset_def split: option.splits if_splits)


subsection \<open>The polling loop\<close>

text \<open>
  When the loop goes on to the lock after \<open>k\<close> rounds, every cursor it looked at before
  left too little room and the last one left enough; the status it leaves with is the
  one it started with (no round) or one that says playing.
\<close>

lemma wait_free_Proceed:
  "wait_free s len cur st ps calls = Proceed st' calls' \<Longrightarrow>
     \<exists>k \<le> length ps.
        calls' = calls @ rounds k \<and>
        (\<forall>i < k. calculate_freesize s ((cur # map poll_cursor ps) ! i) \<le> len) \<and>
        \<not> calculate_freesize s ((cur # map poll_cursor ps) ! k) \<le> len \<and>
        (if k = 0 then st' = st else playing st')"
proof (induction ps arbitrary: cur st calls)
  case Nil
  then show ?case by (auto split: if_splits)
next
  case (Cons p ps)
  show ?case
  proof (cases "calculate_freesize s cur \<le> len")
    case False
    with Cons.prems show ?thesis by (intro exI [of _ 0]) auto
  next
    case True
    with Cons.prems have ok: "SUCCEEDED (poll_status_hr p)" "playing (poll_status p)"
      and again: "wait_free s len (poll_cursor p) (poll_status p) ps
                  (calls @ [Sleep 100, GetCurrentPosition, GetStatus]) = Proceed st' calls'"
      by (auto split: if_splits)
    from Cons.IH [OF again] obtain k where
      le: "k \<le> length ps"
      and k: "calls' = (calls @ [Sleep 100, GetCurrentPosition, GetStatus]) @ rounds k"
      and before: "\<forall>i < k. calculate_freesize s ((poll_cursor p # map poll_cursor ps) ! i) \<le> len"
      and last: "\<not> calculate_freesize s ((poll_cursor p # map poll_cursor ps) ! k) \<le> len"
      and st: "if k = 0 then st' = poll_status p else playing st'"
      by blast
    have "\<forall>i < Suc k. calculate_freesize s ((cur # map poll_cursor (p # ps)) ! i) \<le> len"
      using before True by (auto simp: less_Suc_eq_0_disj)
    moreover have "playing st'" using st ok by (auto split: if_splits)
    ultimately show ?thesis
      using le k last by (intro exI [of _ "Suc k"]) simp
  qed
qed

text \<open>
  When the loop gives up in round \<open>k + 1\<close>, every cursor it looked at left too little
  room, and the status it read in that round was not a successful ``playing''.
\<close>

lemma wait_free_Abandon:
  "wait_free s len cur st ps calls = Abandon calls' \<Longrightarrow>
     \<exists>k < length ps.
        calls' = calls @ rounds (Suc k) \<and>
        (\<forall>i \<le> k. calculate_freesize s ((cur # map poll_cursor ps) ! i) \<le> len) \<and>
        \<not> (SUCCEEDED (poll_status_hr (ps ! k)) \<and> playing (poll_status (ps ! k)))"
proof (induction ps arbitrary: cur st calls)
  case Nil
  then show ?case by (auto split: if_splits)
next
  case (Cons p ps)
  from Cons.prems have full: "calculate_freesize s cur \<le> len"
    by (auto split: if_splits)
  show ?case
  proof (cases "SUCCEEDED (poll_status_hr p) \<and> playing (poll_status p)")
    case False
    with Cons.prems full have "calls' = calls @ rounds (Suc 0)"
      by (auto split: if_splits)
    with False full show ?thesis by (intro exI [of _ 0]) simp
  next
    case True
    with Cons.prems full have again: "wait_free s len (poll_cursor p) (poll_status p) ps
                  (calls @ [Sleep 100, GetCurrentPosition, GetStatus]) = Abandon calls'"
      by (auto split: if_splits)
    from Cons.IH [OF again] obtain k where
      lt: "k < length ps"
      and k: "calls' = (calls @ [Sleep 100, GetCurrentPosition, GetStatus]) @ rounds (Suc k)"
      and before: "\<forall>i \<le> k. calculate_freesize s ((poll_cursor p # map poll_cursor ps) ! i) \<le> len"
      and stop: "\<not> (SUCCEEDED (poll_status_hr (ps ! k)) \<and> playing (poll_status (ps ! k)))"
      by blast
    have "\<forall>i \<le> Suc k. calculate_freesize s ((cur # map poll_cursor (p # ps)) ! i) \<le> len"
    proof (intro allI impI)
      fix i assume "i \<le> Suc k"
      then show "calculate_freesize s ((cur # map poll_cursor (p # ps)) ! i) \<le> len"
        using before full by (cases i) auto
    qed
    then show ?thesis
      using lt k stop by (intro exI [of _ "Suc k"]) simp
  qed
qed

text \<open>The other direction: rounds that all report playing with too little room, then a
  round that does not report playing.\<close>

lemma wait_free_gives_up:
  assumes "\<forall>q \<in> set ps. SUCCEEDED (poll_status_hr q) \<and> playing (poll_status q)"
    and "\<forall>c \<in> set (cur # map poll_cursor ps). calculate_freesize s c \<le> len"
    and "\<not> (SUCCEEDED (poll_status_hr p) \<and> playing (poll_status p))"
  shows "wait_free s len cur st (ps @ p # rest) calls =
           Abandon (calls @ rounds (Suc (length ps)))"
  using assms
proof (induction ps arbitrary: cur st calls)
  case Nil
  then show ?case by auto
next
  case (Cons q qs)
  from Cons.prems have
    "wait_free s len cur st ((q # qs) @ p # rest) calls =
       wait_free s len (poll_cursor q) (poll_status q) (qs @ p # rest)
         (calls @ [Sleep 100, GetCurrentPosition, GetStatus])"
    by simp
  also have "\<dots> = Abandon ((calls @ [Sleep 100, GetCurrentPosition, GetStatus]) @
                        rounds (Suc (length qs)))"
    using Cons.prems by (intro Cons.IH) simp_all
  finally show ?case by simp
qed

subsection \<open>From the lock to the return\<close>

lemma lock_and_copy_result:
  assumes "lock_and_copy s st lr mem data len calls = Inr r"
  shows "w_return r = len"
    and "\<not> first_buffer_after_reset (w_sink r)"
    and "pDSBSecondary (w_sink r) = pDSBSecondary s"
    and "buffer_size (w_sink r) = buffer_size s"
    and "w_calls r = calls @ (if bufferlost st then [Restore] else [])
            @ [Lock (if bufferlost st then 0 else current_circular_offset s) len]
            @ (if SUCCEEDED (lock_hr lr)
               then [Unlock (ptr1 lr) (size1 lr) (ptr2 lr) (size2 lr)] else [])
            @ (if \<not> playing st \<and> \<not> first_buffer_after_reset s
               then [Play DSBPLAY_LOOPING] else [])"
  using assms
  by (auto simp: lock_and_copy_def finish_write_def Let_def split: if_splits option.splits)

lemma lock_and_copy_failed:
  assumes "lock_and_copy s st lr mem data len calls = Inr r"
    and "\<not> SUCCEEDED (lock_hr lr)"
  shows "w_memory r = mem" and "w_copied r = 0"
    and "current_circular_offset (w_sink r) =
           (if bufferlost st then 0 else current_circular_offset s)"
  using assms
  by (auto simp: lock_and_copy_def finish_write_def Let_def split: if_splits option.splits)


lemma lock_and_copy_returns:
  assumes "SUCCEEDED (lock_hr lr) \<longrightarrow> regions_fit lr mem data \<and> buffer_size s \<noteq> 0"
  shows "\<exists>r. lock_and_copy s st lr mem data len calls = Inr r"
  using assms
  by (auto simp: lock_and_copy_def regions_fit_def memcpy_def Let_def
           split: option.splits if_splits)

subsection \<open>The two ways a write returns\<close>

text \<open>
  A write that returns either gave up in the polling loop, after \<open>k + 1\<close> rounds, or
  went through \<open>lock_and_copy\<close> after \<open>k\<close> rounds. The cursors the loop looks at are
  the first one and those of the rounds.
\<close>

lemma write_cases [consumes 1, case_names abandoned locked]:
  assumes ret: "gst_directsound_sink_write s dev mem data len = Inr r"
  obtains
    (abandoned) k where
      "SUCCEEDED (position_hr0 dev)" "playing (status0 dev)"
      "k < length (polls dev)"
      "\<forall>i \<le> k. calculate_freesize s ((cursor0 dev # map poll_cursor (polls dev)) ! i) \<le> len"
      "\<not> (SUCCEEDED (poll_status_hr (polls dev ! k)) \<and> playing (poll_status (polls dev ! k)))"
      "r = \<lparr>w_return = 0, w_sink = s\<lparr>first_buffer_after_reset := False\<rparr>,
            w_memory = mem, w_copied = 0,
            w_calls = [GetStatus, GetCurrentPosition] @ rounds (Suc k)\<rparr>"
  | (locked) st k where
      "lock_and_copy s st (lock_answer dev) mem data len
         ([GetStatus, GetCurrentPosition] @ rounds k) = Inr r"
      "playing st \<longleftrightarrow> playing (status0 dev)"
      "k \<le> length (polls dev)"
      "\<forall>i < k. calculate_freesize s ((cursor0 dev # map poll_cursor (polls dev)) ! i) \<le> len"
      "0 < k \<Longrightarrow> SUCCEEDED (position_hr0 dev) \<and> playing (status0 dev)"
      "SUCCEEDED (position_hr0 dev) \<and> playing (status0 dev) \<Longrightarrow>
         \<not> calculate_freesize s ((cursor0 dev # map poll_cursor (polls dev)) ! k) \<le> len"
proof (cases "SUCCEEDED (position_hr0 dev) \<and> playing (status0 dev)")
  case False
  with ret have "lock_and_copy s (status0 dev) (lock_answer dev) mem data len
         ([GetStatus, GetCurrentPosition] @ rounds 0) = Inr r"
    by (auto simp: gst_directsound_sink_write_def split: option.splits)
  then show ?thesis using False by (intro locked [of "status0 dev" 0]) auto
next
  case True
  let ?w = "wait_free s len (cursor0 dev) (status0 dev) (polls dev)
              [GetStatus, GetCurrentPosition]"
  show ?thesis
  proof (cases ?w)
    case Exhausted
    with ret True show ?thesis
      by (auto simp: gst_directsound_sink_write_def split: option.splits)
  next
    case (Abandon calls)
    from wait_free_Abandon [OF Abandon] obtain k where
      k: "k < length (polls dev)"
        "calls = [GetStatus, GetCurrentPosition] @ rounds (Suc k)"
        "\<forall>i \<le> k. calculate_freesize s ((cursor0 dev # map poll_cursor (polls dev)) ! i) \<le> len"
        "\<not> (SUCCEEDED (poll_status_hr (polls dev ! k)) \<and> playing (poll_status (polls dev ! k)))"
      by blast
    from ret True Abandon have
      "r = \<lparr>w_return = 0, w_sink = s\<lparr>first_buffer_after_reset := False\<rparr>,
            w_memory = mem, w_copied = 0, w_calls = calls\<rparr>"
      by (auto simp: gst_directsound_sink_write_def split: option.splits)
    with k True show ?thesis by (intro abandoned [of k]) auto
  next
    case (Proceed st calls)
    from wait_free_Proceed [OF Proceed] obtain k where
      k: "k \<le> length (polls dev)"
        "calls = [GetStatus, GetCurrentPosition] @ rounds k"
        "\<forall>i < k. calculate_freesize s ((cursor0 dev # map poll_cursor (polls dev)) ! i) \<le> len"
        "\<not> calculate_freesize s ((cursor0 dev # map poll_cursor (polls dev)) ! k) \<le> len"
        "if k = 0 then st = status0 dev else playing st"
      by blast
    from ret True Proceed have "lock_and_copy s st (lock_answer dev) mem data len calls = Inr r"
      by (auto simp: gst_directsound_sink_write_def split: option.splits)
    with k True show ?thesis
      by (intro locked [of st k]) (auto split: if_splits)
  qed
qed

lemma write_held:
  "gst_directsound_sink_write s dev mem data len = Inr r \<Longrightarrow> pDSBSecondary s \<noteq> None"
  by (auto simp: gst_directsound_sink_write_def split: option.splits)

text \<open>A write that does not enter the polling loop returns, provided the regions of a
  successful lock fit and the capacity is not 0.\<close>

lemma write_returns:
  assumes held: "pDSBSecondary s \<noteq> None"
    and idle: "\<not> (SUCCEEDED (position_hr0 dev) \<and> playing (status0 dev))"
    and fits: "SUCCEEDED (lock_hr (lock_answer dev)) \<longrightarrow>
                 regions_fit (lock_answer dev) mem data \<and> buffer_size s \<noteq> 0"
  shows "\<exists>r. gst_directsound_sink_write s dev mem data len = Inr r"
  using held idle lock_and_copy_returns [OF fits]
  by (auto simp: gst_directsound_sink_write_def split: option.splits)

lemma write_frame:
  assumes ret: "gst_directsound_sink_write s dev mem data len = Inr r"
  shows "\<not> first_buffer_after_reset (w_sink r)"
    and "pDSBSecondary (w_sink r) = pDSBSecondary s"
    and "buffer_size (w_sink r) = buffer_size s"
  using ret
  by (cases rule: write_cases; simp add: lock_and_copy_result)+

lemma write_plays:
  assumes ret: "gst_directsound_sink_write s dev mem data len = Inr r"
  shows "Play f \<in> set (w_calls r) \<longleftrightarrow>
           f = DSBPLAY_LOOPING \<and> \<not> playing (status0 dev) \<and> \<not> first_buffer_after_reset s"
  using ret
proof (cases rule: write_cases)
  case (abandoned k)
  then show ?thesis by (auto simp: in_rounds)
next
  case (locked st k)
  from lock_and_copy_result(5) [OF locked(1)] locked(2) show ?thesis
    by (auto simp: in_rounds)
qed

section \<open>Buffer geometry\<close>

lemma ucast_WORD_DWORD:
  "unat (x :: DWORD) < 2 ^ 16 \<Longrightarrow> (ucast (ucast x :: WORD) :: DWORD) = x"
  by (rule word_unat_eq_iff [THEN iffD2])
     (simp add: unsigned_ucast_eq unsigned_take_bit_eq take_bit_nat_eq_self)

lemma positive_gint:
  assumes "1 \<le> sint (x :: gint)"
  shows "nat (sint x) = unat x"
proof -
  have u: "0 \<le> uint x" "uint x < 2 ^ 32"
    using uint_bounded [of x] by simp_all
  have "sint x = signed_take_bit 31 (uint x)"
    by (simp add: sint_uint)
  also have "\<dots> = take_bit 32 (uint x) - 2 ^ 32 * of_bool (bit (uint x) 31)"
    using signed_take_bit_eq_take_bit_minus [of 31 "uint x"] by simp
  also have "take_bit 32 (uint x) = uint x"
    using u by (simp add: take_bit_int_eq_self)
  finally have s: "sint x = uint x - 2 ^ 32 * of_bool (bit (uint x) 31)" .
  have "sint x = uint x"
  proof (cases "bit (uint x) 31")
    case False
    with s show ?thesis by simp
  next
    case True
    with s have "sint x = uint x - 2 ^ 32" by simp
    with u assms show ?thesis by simp
  qed
  then show ?thesis by simp
qed

text \<open>
  Claim C9, as the code has it. \<^verbatim>\<open>prepare\<close> computes \<^verbatim>\<open>nAvgBytesPerSec\<close> as a
  32-bit product and halves it. Take a sink that has been opened (the engine pointer is
  set), a device that hands out a buffer when the creation succeeds, and a ring-buffer
  spec with 1 or 2 channels, a sample rate of at least 1, a bytes-per-sample value that
  fits the 16-bit \<^verbatim>\<open>nBlockAlign\<close> and a product \<open>rate * bytes_per_sample\<close> below
  \<open>2 ^ 32\<close>. Then \<^verbatim>\<open>prepare\<close> returns and leaves
  \<open>buffer_size = rate * bytes_per_sample div 2\<close> (rounded down), whether the creation
  succeeds or not.
\<close>

theorem prepare_capacity:
  assumes opened: "pDS s \<noteq> None"
    and created: "\<not> FAILED (create_hr dev) \<Longrightarrow> created_buffer dev \<noteq> None"
    and ch: "spec_channels spec = 1 \<or> spec_channels spec = 2"
    and rate: "1 \<le> sint (spec_rate spec)"
    and bps: "unat (spec_bytes_per_sample spec) < 2 ^ 16"
    and fits: "nat (sint (spec_rate spec)) * unat (spec_bytes_per_sample spec) < 2 ^ 32"
  shows "\<exists>r. gst_directsound_sink_prepare s spec dev = Inr r \<and>
           unat (buffer_size (p_sink r)) =
             nat (sint (spec_rate spec)) * unat (spec_bytes_per_sample spec) div 2"
proof -
  have r: "nat (sint (spec_rate spec)) = unat (spec_rate spec)"
    by (rule positive_gint [OF rate])
  have prod: "unat (spec_rate spec * spec_bytes_per_sample spec) =
                unat (spec_rate spec) * unat (spec_bytes_per_sample spec)"
    using fits by (simp add: r unat_mult_lem [THEN iffD1])
  have channels: "(ucast (spec_channels spec) :: WORD) \<noteq> 0"
    using ch by auto
  have handed: "FAILED (create_hr dev) \<or> created_buffer dev \<noteq> None"
    using created by blast
  show ?thesis
    using channels opened handed
    by (auto simp: gst_directsound_sink_prepare_def fill_wfx_def Let_def r
          ucast_WORD_DWORD [OF bps] prod unat_div split: option.splits)
qed

text \<open>
  The scenario of the specification, on the opened sink: two channels, 44100 Hz, four
  bytes per sample give a capacity of 88200 bytes.
\<close>

theorem prepare_capacity_witness:
  "\<exists>r. gst_directsound_sink_prepare opened_sink
          \<lparr>spec_channels = 2, spec_rate = 44100, spec_bytes_per_sample = 4\<rparr>
          \<lparr>create_hr = 0, created_buffer = Some 2\<rparr> = Inr r \<and>
        unat (buffer_size (p_sink r)) = 88200"
proof -
  let ?spec = "\<lparr>spec_channels = 2, spec_rate = 44100, spec_bytes_per_sample = 4\<rparr>"
  let ?dev = "\<lparr>create_hr = 0, created_buffer = Some 2\<rparr>"
  have opened: "pDS opened_sink \<noteq> None"
    by (simp add: opened_sink_def)
  have created: "\<not> FAILED (create_hr ?dev) \<Longrightarrow> created_buffer ?dev \<noteq> None"
    by simp
  have ch: "spec_channels ?spec = 1 \<or> spec_channels ?spec = 2"
    and rate: "1 \<le> sint (spec_rate ?spec)"
    and bps: "unat (spec_bytes_per_sample ?spec) < 2 ^ 16"
    and fits: "nat (sint (spec_rate ?spec)) * unat (spec_bytes_per_sample ?spec) < 2 ^ 32"
    by simp_all
  from prepare_capacity [OF opened created ch rate bps fits]
  show ?thesis by simp
qed

text \<open>
  Without the bound on the product the formula fails: stereo 16-bit audio at
  \<open>2 ^ 30\<close> Hz is inside the advertised range of rates; on the opened sink, with a
  device that creates the buffer, the 32-bit product wraps to 0 and the capacity comes
  out as 0 instead of \<open>2 ^ 31\<close>.
\<close>

theorem prepare_capacity_wraps:
  "\<not> isl (gst_directsound_sink_prepare opened_sink
            \<lparr>spec_channels = 2, spec_rate = 1073741824, spec_bytes_per_sample = 4\<rparr>
            \<lparr>create_hr = 0, created_buffer = Some 2\<rparr>) \<and>
   unat (buffer_size (p_sink (projr (gst_directsound_sink_prepare opened_sink
            \<lparr>spec_channels = 2, spec_rate = 1073741824, spec_bytes_per_sample = 4\<rparr>
            \<lparr>create_hr = 0, created_buffer = Some 2\<rparr>)))) = 0 \<and>
   nat (sint (1073741824 :: gint)) * unat (4 :: gint) div 2 = 2147483648"
  by (simp add: gst_directsound_sink_prepare_def fill_wfx_def Let_def
        opened_sink_def gst_directsound_sink_init_def FAILED_def)

section \<open>The write offset\<close>

lemma reset_result:
  assumes "gst_directsound_sink_reset s lr mem = Inr r"
  shows "first_buffer_after_reset (r_sink r)"
    and "buffer_size (r_sink r) = buffer_size s"
    and "pDSBSecondary (r_sink r) = pDSBSecondary s"
    and "current_circular_offset (r_sink r) =
           (if pDSBSecondary s = None then current_circular_offset s else 0)"
    and "length (r_memory r) = length mem"
  using assms
  by (auto simp: gst_directsound_sink_reset_def Let_def memset_def
           split: option.splits if_splits)





section \<open>A lock that fails\<close>

text \<open>
  Claim C2, as the code has it. When \<^verbatim>\<open>write\<close> reaches the lock and the lock fails,
  nothing is copied, the memory is untouched and the offset is not advanced: it is the
  old offset, or 0 when the buffer-lost recovery ran before the lock. The call returns
  the requested \<^verbatim>\<open>length\<close>, not 0: the \<^verbatim>\<open>return length\<close> at the end of the
  function does not look at the result of the lock.
\<close>

theorem write_lock_failure:
  assumes ret: "gst_directsound_sink_write s dev mem data len = Inr r"
    and locking: "Lock a n \<in> set (w_calls r)"
    and failed: "\<not> SUCCEEDED (lock_hr (lock_answer dev))"
  shows "w_return r = len \<and> w_copied r = 0 \<and> w_memory r = mem \<and>
         current_circular_offset (w_sink r) =
           (if Restore \<in> set (w_calls r) then 0 else current_circular_offset s)"
  using ret
proof (cases rule: write_cases)
  case (abandoned k)
  with locking show ?thesis by (auto simp: in_rounds)
next
  case (locked st k)
  from lock_and_copy_result(1,5) [OF locked(1)] lock_and_copy_failed [OF locked(1) failed]
  show ?thesis by (auto simp: in_rounds)
qed

text \<open>A run without recovery: the lock fails, four bytes were offered, the call returns
  4, offset and memory are as before.\<close>

theorem write_lock_failure_witness:
  "gst_directsound_sink_write (sample_sink 5 True) (quiet_device 0 failed_lock)
       silence samples 4 =
     Inr \<lparr>w_return = 4, w_sink = sample_sink 5 False, w_memory = silence, w_copied = 0,
          w_calls = [GetStatus, GetCurrentPosition, Lock 5 4]\<rparr> \<and>
   \<not> SUCCEEDED (lock_hr (lock_answer (quiet_device 0 failed_lock)))"
proof -
  have run: "gst_directsound_sink_write (sample_sink 5 True) (quiet_device 0 failed_lock)
       silence samples 4 =
     Inr \<lparr>w_return = 4, w_sink = sample_sink 5 False, w_memory = silence, w_copied = 0,
          w_calls = [GetStatus, GetCurrentPosition, Lock 5 4]\<rparr>"
    by (simp add: write_eval)
  have failed: "\<not> SUCCEEDED (lock_hr (lock_answer (quiet_device 0 failed_lock)))"
    by (simp add: sample_defs device_consts)
  from write_lock_failure [OF run _ failed, of 5 4] run failed
  show ?thesis by simp
qed

text \<open>
  The claim as written fails on both counts when the device reports the buffer lost and
  the lock then fails: the call returns 4, not 0, and the offset goes from 5 to 0.
\<close>

theorem write_lock_failure_returns_length:
  "\<not> SUCCEEDED (lock_hr (lock_answer (quiet_device DSBSTATUS_BUFFERLOST failed_lock))) \<and>
   gst_directsound_sink_write (sample_sink 5 False)
       (quiet_device DSBSTATUS_BUFFERLOST failed_lock) silence samples 4 =
     Inr \<lparr>w_return = 4, w_sink = sample_sink 0 False, w_memory = silence, w_copied = 0,
          w_calls = [GetStatus, GetCurrentPosition, Restore, Lock 0 4,
                     Play DSBPLAY_LOOPING]\<rparr> \<and>
   (4 :: guint) \<noteq> 0 \<and>
   current_circular_offset (sample_sink 0 False)
     \<noteq> current_circular_offset (sample_sink 5 False)"
  by (simp add: write_eval)

section \<open>The free space the loop waits for\<close>




section \<open>Giving up a blocked write\<close>

text \<open>
  Claim C4. A write finds the buffer playing and too little room, and goes round the
  polling loop: the rounds \<open>ps\<close> all read the status successfully as playing, and every
  cursor seen up to then leaves a free size of at most \<open>length\<close>. If the next round
  \<open>p\<close> reads a status without the playing bit, the write returns 0 at once: no
  \<^verbatim>\<open>Lock\<close>, no \<^verbatim>\<open>memcpy\<close>, the memory and the offset as they were; the only change
  is the cleared first-buffer flag.
\<close>

theorem write_abandoned_when_stopped:
  assumes held: "pDSBSecondary s \<noteq> None"
    and pos: "SUCCEEDED (position_hr0 dev)"
    and play: "playing (status0 dev)"
    and trace: "polls dev = ps @ p # rest"
    and still: "\<forall>q \<in> set ps. SUCCEEDED (poll_status_hr q) \<and> playing (poll_status q)"
    and full: "\<forall>c \<in> set (cursor0 dev # map poll_cursor ps). calculate_freesize s c \<le> len"
    and stopped: "\<not> playing (poll_status p)"
  shows "gst_directsound_sink_write s dev mem data len =
           Inr \<lparr>w_return = 0,
                w_sink = s\<lparr>first_buffer_after_reset := False\<rparr>,
                w_memory = mem,
                w_copied = 0,
                w_calls = [GetStatus, GetCurrentPosition] @ rounds (Suc (length ps))\<rparr>"
proof -
  from stopped have "\<not> (SUCCEEDED (poll_status_hr p) \<and> playing (poll_status p))" by simp
  from wait_free_gives_up [OF still full this]
  have "wait_free s len (cursor0 dev) (status0 dev) (polls dev) [GetStatus, GetCurrentPosition] =
          Abandon ([GetStatus, GetCurrentPosition] @ rounds (Suc (length ps)))"
    by (simp only: trace)
  with held pos play show ?thesis
    by (auto simp: gst_directsound_sink_write_def split: option.splits)
qed

text \<open>
  A run: the buffer is full (cursor at the offset), the first round still reports
  playing with the cursor unmoved, the second reports stopped.
\<close>

theorem write_abandoned_when_stopped_witness:
  "gst_directsound_sink_write (sample_sink 6 True)
       (playing_device 6 [\<lparr>poll_cursor = 6, poll_status_hr = 0, poll_status = 1\<rparr>,
                          \<lparr>poll_cursor = 6, poll_status_hr = 0, poll_status = 0\<rparr>] plain_lock)
       silence samples 4 =
     Inr \<lparr>w_return = 0, w_sink = sample_sink 6 False, w_memory = silence, w_copied = 0,
          w_calls = [GetStatus, GetCurrentPosition,
                     Sleep 100, GetCurrentPosition, GetStatus,
                     Sleep 100, GetCurrentPosition, GetStatus]\<rparr>"
proof -
  let ?p1 = "\<lparr>poll_cursor = 6, poll_status_hr = 0, poll_status = 1\<rparr> :: poll_reply"
  let ?p2 = "\<lparr>poll_cursor = 6, poll_status_hr = 0, poll_status = 0\<rparr> :: poll_reply"
  let ?dev = "playing_device 6 [?p1, ?p2] plain_lock"
  have held: "pDSBSecondary (sample_sink 6 True) \<noteq> None"
    and pos: "SUCCEEDED (position_hr0 ?dev)" and play: "playing (status0 ?dev)"
    and trace: "polls ?dev = [?p1] @ ?p2 # []"
    and still: "\<forall>q \<in> set [?p1]. SUCCEEDED (poll_status_hr q) \<and> playing (poll_status q)"
    and full: "\<forall>c \<in> set (cursor0 ?dev # map poll_cursor [?p1]).
                 calculate_freesize (sample_sink 6 True) c \<le> 4"
    and stopped: "\<not> playing (poll_status ?p2)"
    by (simp_all add: sample_defs device_consts calculate_freesize_def)
  from write_abandoned_when_stopped [OF held pos play trace still full stopped,
      of silence samples]
  show ?thesis by (simp add: sample_sink_def)
qed

text \<open>
  Claim C10. A write that returns without ever calling \<^verbatim>\<open>Lock\<close> is one that was
  given up in the polling loop: it has slept, it returns 0 and leaves the memory alone.
  It has cleared the first-buffer flag all the same. So the next write that finds the
  buffer not playing calls \<^verbatim>\<open>Play\<close> with the looping flag, whether or not the
  abandoned write was the first after a reset; that next write returns whenever the
  regions of its lock, if it succeeds, fit.
\<close>

theorem abandoned_write_clears_flag:
  assumes ret: "gst_directsound_sink_write s dev mem data len = Inr r"
    and abandoned: "\<forall>a n. Lock a n \<notin> set (w_calls r)"
  shows "w_return r = 0 \<and> w_memory r = mem \<and> w_copied r = 0 \<and>
         Sleep 100 \<in> set (w_calls r) \<and>
         \<not> first_buffer_after_reset (w_sink r) \<and>
         (\<forall>dev2 mem2 data2 len2.
            \<not> playing (status0 dev2) \<and>
            (SUCCEEDED (lock_hr (lock_answer dev2)) \<longrightarrow>
               regions_fit (lock_answer dev2) mem2 data2 \<and> buffer_size s \<noteq> 0) \<longrightarrow>
            (\<exists>r2. gst_directsound_sink_write (w_sink r) dev2 mem2 data2 len2 = Inr r2 \<and>
                  Play DSBPLAY_LOOPING \<in> set (w_calls r2)))"
proof -
  have first: "w_return r = 0 \<and> w_memory r = mem \<and> w_copied r = 0 \<and>
               Sleep 100 \<in> set (w_calls r)"
    using ret
  proof (cases rule: write_cases)
    case (abandoned k)
    then show ?thesis by simp
  next
    case (locked st k)
    from lock_and_copy_result(5) [OF locked(1)] assms(2) show ?thesis by auto
  qed
  have flag: "\<not> first_buffer_after_reset (w_sink r)"
    by (rule write_frame(1) [OF ret])
  have held: "pDSBSecondary (w_sink r) \<noteq> None"
    using write_held [OF ret] write_frame(2) [OF ret] by simp
  have cap: "buffer_size (w_sink r) = buffer_size s"
    by (rule write_frame(3) [OF ret])
  have "\<exists>r2. gst_directsound_sink_write (w_sink r) dev2 mem2 data2 len2 = Inr r2 \<and>
             Play DSBPLAY_LOOPING \<in> set (w_calls r2)"
    if idle: "\<not> playing (status0 dev2)"
      and fits: "SUCCEEDED (lock_hr (lock_answer dev2)) \<longrightarrow>
                   regions_fit (lock_answer dev2) mem2 data2 \<and> buffer_size s \<noteq> 0"
    for dev2 mem2 data2 len2
  proof -
    from write_returns [of "w_sink r" dev2 mem2 data2 len2] held idle fits cap
    obtain r2 where r2: "gst_directsound_sink_write (w_sink r) dev2 mem2 data2 len2 = Inr r2"
      by auto
    from write_plays [OF r2, of DSBPLAY_LOOPING] idle flag
    have "Play DSBPLAY_LOOPING \<in> set (w_calls r2)" by simp
    with r2 show ?thesis by blast
  qed
  with first flag show ?thesis by blast
qed

text \<open>
  A run: the first write after a reset meets a full, playing buffer and is given up when
  the device stops; the write after it, on the stopped device, starts playback.
\<close>

theorem abandoned_write_clears_flag_witness:
  "gst_directsound_sink_write (sample_sink 6 True)
       (playing_device 6 [\<lparr>poll_cursor = 6, poll_status_hr = 0, poll_status = 0\<rparr>] plain_lock)
       silence samples 4 =
     Inr \<lparr>w_return = 0, w_sink = sample_sink 6 False, w_memory = silence, w_copied = 0,
          w_calls = [GetStatus, GetCurrentPosition,
                     Sleep 100, GetCurrentPosition, GetStatus]\<rparr> \<and>
   gst_directsound_sink_write (sample_sink 6 False) (quiet_device 0 wrapped_lock)
       silence samples 4 =
     Inr \<lparr>w_return = 4, w_sink = sample_sink 2 False, w_memory = [3, 4, 0, 0, 0, 0, 1, 2],
          w_copied = 4,
          w_calls = [GetStatus, GetCurrentPosition, Lock 6 4,
                     Unlock (Some 6) 2 (Some 0) 2, Play DSBPLAY_LOOPING]\<rparr>"
proof -
  let ?dev = "playing_device 6 [\<lparr>poll_cursor = 6, poll_status_hr = 0, poll_status = 0\<rparr>]
                plain_lock"
  let ?r = "\<lparr>w_return = 0, w_sink = sample_sink 6 False, w_memory = silence, w_copied = 0,
          w_calls = [GetStatus, GetCurrentPosition,
                     Sleep 100, GetCurrentPosition, GetStatus]\<rparr>"
  have run: "gst_directsound_sink_write (sample_sink 6 True) ?dev silence samples 4 = Inr ?r"
    by (simp add: write_eval)
  have nolock: "\<forall>a n. Lock a n \<notin> set (w_calls ?r)"
    by simp
  have next_write: "gst_directsound_sink_write (sample_sink 6 False)
       (quiet_device 0 wrapped_lock) silence samples 4 =
     Inr \<lparr>w_return = 4, w_sink = sample_sink 2 False, w_memory = [3, 4, 0, 0, 0, 0, 1, 2],
          w_copied = 4,
          w_calls = [GetStatus, GetCurrentPosition, Lock 6 4,
                     Unlock (Some 6) 2 (Some 0) 2, Play DSBPLAY_LOOPING]\<rparr>"
    by (simp add: write_eval)
  from abandoned_write_clears_flag [OF run nolock] run next_write
  show ?thesis by simp
qed

section \<open>A copy that wraps\<close>



section \<open>The delay query\<close>

lemma bytes_in_queue_nat:
  assumes "unat c \<le> unat (buffer_size s)"
  shows "unat (bytes_in_queue s c) =
           spec_queued_bytes (unat (buffer_size s)) (unat (current_circular_offset s)) (unat c)"
proof (cases "c < current_circular_offset s")
  case True
  then have "unat (current_circular_offset s - c) = unat (current_circular_offset s) - unat c"
    by (simp add: unat_sub word_le_nat_alt word_less_nat_alt)
  with True show ?thesis
    by (simp add: bytes_in_queue_def spec_queued_bytes_def word_less_nat_alt)
next
  case False
  then have le: "unat (current_circular_offset s) \<le> unat c"
    by (simp add: word_less_nat_alt)
  have "c \<le> buffer_size s" using assms by (simp add: word_le_nat_alt)
  then have d: "unat (buffer_size s - c) = unat (buffer_size s) - unat c"
    by (rule unat_sub)
  have "unat (buffer_size s) < 2 ^ LENGTH(32)" by (rule unsigned_less)
  then have "unat (current_circular_offset s) + unat (buffer_size s - c) < 2 ^ LENGTH(32)"
    using le assms d by linarith
  then have "unat (current_circular_offset s + (buffer_size s - c)) =
          unat (current_circular_offset s) + unat (buffer_size s - c)"
    by (rule unat_add_lem [THEN iffD1])
  with False d show ?thesis
    by (simp add: bytes_in_queue_def spec_queued_bytes_def word_less_nat_alt)
qed

text \<open>
  Claim C6. On a sink that holds a buffer, \<^verbatim>\<open>delay\<close> returns 0 when the status word
  lacks the playing bit and when the position query does not come back with
  \<^verbatim>\<open>S_OK\<close>, which covers every failing result code. When the buffer plays, the
  position query returns \<^verbatim>\<open>S_OK\<close> and \<open>bytes_per_sample\<close> is not 0, it returns the
  queued byte count divided by \<open>bytes_per_sample\<close>, rounded down, where the queued byte
  count is \<open>write_offset - cursor\<close> if the cursor is below the offset and
  \<open>write_offset + (capacity - cursor)\<close> otherwise. The result is given in 32-bit
  arithmetic as the code computes it and, for a cursor inside the buffer, on natural
  numbers as the specification writes it.
\<close>

theorem delay_queued_samples:
  assumes held: "pDSBSecondary s \<noteq> None"
  shows "(\<not> playing (d_status dev) \<or> FAILED (d_position_hr dev) \<or> d_position_hr dev \<noteq> S_OK
            \<longrightarrow> gst_directsound_sink_delay s dev = Inr 0) \<and>
         (playing (d_status dev) \<and> d_position_hr dev = S_OK \<and> bytes_per_sample s \<noteq> 0 \<longrightarrow>
            (\<exists>n. gst_directsound_sink_delay s dev = Inr n \<and>
                 n = (if d_cursor dev < current_circular_offset s
                      then current_circular_offset s - d_cursor dev
                      else current_circular_offset s + (buffer_size s - d_cursor dev))
                       div bytes_per_sample s \<and>
                 (unat (d_cursor dev) \<le> unat (buffer_size s) \<longrightarrow>
                    unat n =
                      spec_queued_bytes (unat (buffer_size s))
                        (unat (current_circular_offset s)) (unat (d_cursor dev))
                        div unat (bytes_per_sample s))))"
proof -
  have failed: "FAILED hr \<Longrightarrow> hr \<noteq> S_OK" for hr
    by (auto simp: FAILED_def S_OK_def)
  have zero: "gst_directsound_sink_delay s dev = Inr 0"
    if "\<not> playing (d_status dev) \<or> FAILED (d_position_hr dev) \<or> d_position_hr dev \<noteq> S_OK"
    using that held failed [of "d_position_hr dev"]
    by (auto simp: gst_directsound_sink_delay_def split: option.splits)
  have queued: "gst_directsound_sink_delay s dev =
                  Inr (bytes_in_queue s (d_cursor dev) div bytes_per_sample s)"
    if "playing (d_status dev)" "d_position_hr dev = S_OK" "bytes_per_sample s \<noteq> 0"
    using that held by (auto simp: gst_directsound_sink_delay_def split: option.splits)
  have nat: "unat (bytes_in_queue s (d_cursor dev) div bytes_per_sample s) =
               spec_queued_bytes (unat (buffer_size s))
                 (unat (current_circular_offset s)) (unat (d_cursor dev))
                 div unat (bytes_per_sample s)"
    if "unat (d_cursor dev) \<le> unat (buffer_size s)"
    by (simp only: unat_div bytes_in_queue_nat [OF that])
  show ?thesis
    using zero queued nat by (auto simp: bytes_in_queue_def)
qed

text \<open>
  A run: offset 6, cursor at 2, two bytes per sample: four bytes are queued, two samples.
  With the cursor at 6 the whole buffer counts as queued: four samples. A stopped buffer
  and a failing position query give 0.
\<close>

theorem delay_queued_samples_witness:
  "gst_directsound_sink_delay (sample_sink 6 False)
      \<lparr>d_status = 1, d_position_hr = 0, d_cursor = 2\<rparr> = Inr 2 \<and>
   gst_directsound_sink_delay (sample_sink 6 False)
      \<lparr>d_status = 1, d_position_hr = 0, d_cursor = 6\<rparr> = Inr 4 \<and>
   gst_directsound_sink_delay (sample_sink 6 False)
      \<lparr>d_status = 0, d_position_hr = 0, d_cursor = 2\<rparr> = Inr 0 \<and>
   gst_directsound_sink_delay (sample_sink 6 False)
      \<lparr>d_status = 1, d_position_hr = 2147500037, d_cursor = 2\<rparr> = Inr 0"
proof -
  have held: "pDSBSecondary (sample_sink 6 False) \<noteq> None"
    by (simp add: sample_sink_def)
  from delay_queued_samples [OF held, of "\<lparr>d_status = 1, d_position_hr = 0, d_cursor = 2\<rparr>"]
    delay_queued_samples [OF held, of "\<lparr>d_status = 1, d_position_hr = 0, d_cursor = 6\<rparr>"]
    delay_queued_samples [OF held, of "\<lparr>d_status = 0, d_position_hr = 0, d_cursor = 2\<rparr>"]
    delay_queued_samples [OF held,
      of "\<lparr>d_status = 1, d_position_hr = 2147500037, d_cursor = 2\<rparr>"]
  show ?thesis
    by (simp add: sample_sink_def device_consts)
qed

section \<open>Reset\<close>

lemma replicate_8: "replicate 8 x = [x, x, x, x, x, x, x, x]"
  by (simp add: numeral_eq_Suc)

lemma reset_returns:
  assumes "zero_fill_fits lr mem"
  shows "\<exists>r. gst_directsound_sink_reset s lr mem = Inr r"
  using assms
  by (auto simp: gst_directsound_sink_reset_def zero_fill_fits_def Let_def memset_def
           split: option.splits if_splits)

lemma reset_sink:
  assumes "gst_directsound_sink_reset s lr mem = Inr r"
  shows "r_sink r =
           (if pDSBSecondary s = None then s else s\<lparr>current_circular_offset := 0\<rparr>)
             \<lparr>first_buffer_after_reset := True\<rparr>"
  using assms
  by (auto simp: gst_directsound_sink_reset_def Let_def split: option.splits if_splits)

text \<open>
  Claim C7, as the code has it. \<^verbatim>\<open>reset\<close> has no error to return, and it returns
  whenever the device, if it grants the lock, hands out a region inside the buffer. Run
  once and run again, it leaves the first-buffer flag set, and the second run leaves the
  sink exactly as the first did. The offset is rewound only under the guard
  \<^verbatim>\<open>if (dsoundsink->pDSBSecondary)\<close>: with a buffer the offset is 0 after one call and
  after two, without one the offset is what it was. With a buffer, \<^verbatim>\<open>delay\<close> then
  answers 0 for as long as the device reports the buffer as not playing.
\<close>

theorem reset_twice:
  assumes fit1: "zero_fill_fits lr1 mem" and fit2: "zero_fill_fits lr2 mem"
  shows "\<exists>r1 r2.
           gst_directsound_sink_reset s lr1 mem = Inr r1 \<and>
           gst_directsound_sink_reset (r_sink r1) lr2 (r_memory r1) = Inr r2 \<and>
           first_buffer_after_reset (r_sink r1) \<and>
           r_sink r2 = r_sink r1 \<and>
           (pDSBSecondary s \<noteq> None \<longrightarrow>
              current_circular_offset (r_sink r1) = 0 \<and>
              (\<forall>dev. \<not> playing (d_status dev) \<longrightarrow>
                 gst_directsound_sink_delay (r_sink r1) dev = Inr 0)) \<and>
           (pDSBSecondary s = None \<longrightarrow>
              current_circular_offset (r_sink r1) = current_circular_offset s)"
proof -
  from reset_returns [OF fit1] obtain r1 where
    r1: "gst_directsound_sink_reset s lr1 mem = Inr r1" by blast
  have "zero_fill_fits lr2 (r_memory r1)"
    using fit2 reset_result(5) [OF r1] by (auto simp: zero_fill_fits_def split: option.splits)
  from reset_returns [OF this] obtain r2 where
    r2: "gst_directsound_sink_reset (r_sink r1) lr2 (r_memory r1) = Inr r2" by blast
  have same: "r_sink r2 = r_sink r1"
    using reset_sink [OF r1] reset_sink [OF r2] by (auto split: if_splits)
  have delay: "gst_directsound_sink_delay (r_sink r1) dev = Inr 0"
    if "pDSBSecondary s \<noteq> None" "\<not> playing (d_status dev)" for dev
    using that reset_result(3) [OF r1]
    by (auto simp: gst_directsound_sink_delay_def split: option.splits)
  show ?thesis
    using r1 r2 same delay reset_result(1,4) [OF r1] by auto
qed

text \<open>
  A run: offset 6, the first-buffer flag clear, audio in the buffer. One reset leaves
  offset 0, the flag set and the buffer zeroed; a second reset changes nothing.
\<close>

theorem reset_twice_witness:
  "gst_directsound_sink_reset (sample_sink 6 False) whole_lock [3, 4, 0, 0, 0, 0, 1, 2] =
     Inr \<lparr>r_sink = sample_sink 0 True, r_memory = silence,
          r_calls = [Stop, SetCurrentPosition 0, Lock 0 8, Unlock (Some 0) 8 None 0]\<rparr> \<and>
   gst_directsound_sink_reset (sample_sink 0 True) whole_lock silence =
     Inr \<lparr>r_sink = sample_sink 0 True, r_memory = silence,
          r_calls = [Stop, SetCurrentPosition 0, Lock 0 8, Unlock (Some 0) 8 None 0]\<rparr> \<and>
   gst_directsound_sink_delay (sample_sink 0 True)
      \<lparr>d_status = 0, d_position_hr = 0, d_cursor = 0\<rparr> = Inr 0"
proof -
  have fit: "zero_fill_fits whole_lock [3, 4, 0, 0, 0, 0, 1, 2]"
    by (simp add: zero_fill_fits_def whole_lock_def SUCCEEDED_def)
  have run1: "gst_directsound_sink_reset (sample_sink 6 False) whole_lock
                [3, 4, 0, 0, 0, 0, 1, 2] =
     Inr \<lparr>r_sink = sample_sink 0 True, r_memory = silence,
          r_calls = [Stop, SetCurrentPosition 0, Lock 0 8, Unlock (Some 0) 8 None 0]\<rparr>"
    by (simp add: gst_directsound_sink_reset_def memset_def Let_def sample_defs device_consts
          replicate_8)
  have run2: "gst_directsound_sink_reset (sample_sink 0 True) whole_lock silence =
     Inr \<lparr>r_sink = sample_sink 0 True, r_memory = silence,
          r_calls = [Stop, SetCurrentPosition 0, Lock 0 8, Unlock (Some 0) 8 None 0]\<rparr>"
    by (simp add: gst_directsound_sink_reset_def memset_def Let_def sample_defs device_consts
          replicate_8)
  from reset_twice [OF fit fit, of "sample_sink 6 False"] run1 run2
  show ?thesis
    by (simp add: sample_sink_def device_consts)
qed

text \<open>
  The claim as written fails in two places. Without a hardware buffer the guard skips
  the rewind: an offset of 5 is still 5 after the reset. And with a buffer, the count of
  queued samples is 0 only if the device has stopped: when \<^verbatim>\<open>Stop\<close> did not take
  effect and the status still says playing, \<^verbatim>\<open>delay\<close> after the reset reports the
  whole buffer as queued, here 4 samples.
\<close>

theorem reset_without_buffer_keeps_offset:
  "gst_directsound_sink_reset ((sample_sink 5 False)\<lparr>pDSBSecondary := None\<rparr>) whole_lock
       silence =
     Inr \<lparr>r_sink = (sample_sink 5 True)\<lparr>pDSBSecondary := None\<rparr>, r_memory = silence,
          r_calls = []\<rparr> \<and>
   current_circular_offset ((sample_sink 5 True)\<lparr>pDSBSecondary := None\<rparr>) = 5 \<and>
   gst_directsound_sink_reset (sample_sink 6 False) whole_lock silence =
     Inr \<lparr>r_sink = sample_sink 0 True, r_memory = silence,
          r_calls = [Stop, SetCurrentPosition 0, Lock 0 8, Unlock (Some 0) 8 None 0]\<rparr> \<and>
   gst_directsound_sink_delay (sample_sink 0 True)
      \<lparr>d_status = DSBSTATUS_PLAYING, d_position_hr = S_OK, d_cursor = 0\<rparr> = Inr 4"
  by (simp add: gst_directsound_sink_reset_def gst_directsound_sink_delay_def
        bytes_in_queue_def memset_def Let_def sample_defs device_consts replicate_8)

section \<open>Starting playback\<close>

text \<open>
  Claim C8. Every write that returns has cleared the first-buffer flag, and it has
  called \<^verbatim>\<open>Play\<close> with the looping flag exactly when the status word it first read
  lacked the playing bit and the flag was clear on entry: a write on a buffer that is
  not playing starts looping playback unless it is the first write after a reset, and
  that one never does. A write on a buffer that is not playing does return, provided the
  regions of a lock that succeeds fit and the capacity is not 0.
\<close>

theorem write_starts_playback:
  "(\<forall>r. gst_directsound_sink_write s dev mem data len = Inr r \<longrightarrow>
       \<not> first_buffer_after_reset (w_sink r) \<and>
       (Play DSBPLAY_LOOPING \<in> set (w_calls r) \<longleftrightarrow>
          \<not> playing (status0 dev) \<and> \<not> first_buffer_after_reset s)) \<and>
   (pDSBSecondary s \<noteq> None \<and> \<not> playing (status0 dev) \<and>
    (SUCCEEDED (lock_hr (lock_answer dev)) \<longrightarrow>
       regions_fit (lock_answer dev) mem data \<and> buffer_size s \<noteq> 0) \<longrightarrow>
    (\<exists>r. gst_directsound_sink_write s dev mem data len = Inr r))"
  using write_frame(1) [of s dev mem data len] write_plays [of s dev mem data len _ DSBPLAY_LOOPING]
    write_returns [of s dev mem data len]
  by auto

text \<open>
  The scenario of the specification in small: a write on the stopped buffer starts
  playback; after a reset the next write, flag set, copies its data and does not call
  \<^verbatim>\<open>Play\<close>; both leave the flag clear.
\<close>

theorem write_starts_playback_witness:
  "gst_directsound_sink_write (sample_sink 0 False) (quiet_device 0 plain_lock)
       silence samples 4 =
     Inr \<lparr>w_return = 4, w_sink = sample_sink 4 False, w_memory = [1, 2, 3, 4, 0, 0, 0, 0],
          w_copied = 4,
          w_calls = [GetStatus, GetCurrentPosition, Lock 0 4, Unlock (Some 0) 4 None 0,
                     Play DSBPLAY_LOOPING]\<rparr> \<and>
   gst_directsound_sink_write (sample_sink 0 True) (quiet_device 0 plain_lock)
       silence samples 4 =
     Inr \<lparr>w_return = 4, w_sink = sample_sink 4 False, w_memory = [1, 2, 3, 4, 0, 0, 0, 0],
          w_copied = 4,
          w_calls = [GetStatus, GetCurrentPosition, Lock 0 4, Unlock (Some 0) 4 None 0]\<rparr>"
proof -
  have fits: "regions_fit (lock_answer (quiet_device 0 plain_lock)) silence samples"
    by (simp add: regions_fit_def sample_defs)
  from write_starts_playback [of "sample_sink 0 False" "quiet_device 0 plain_lock"
      silence samples 4]
    write_starts_playback [of "sample_sink 0 True" "quiet_device 0 plain_lock"
      silence samples 4] fits
  show ?thesis
    by (simp add: write_eval)
qed


end
